theory Spec2Isabelle
  imports Complex_Main
begin

section \<open>The driver screen's tracking session\<close>

text \<open>
  A shallow embedding of the session logic of \<^verbatim>\<open>screens/DriverScreen.tsx\<close>: the variant
  with random test data, whose \<^verbatim>\<open>SentLocation.type\<close> has four values. The second variant
  of the screen lacks the random-data functions and words its permission dialogs
  differently; the functions modelled here are otherwise the same in both.

  Conventions of the model:
  \<^item> The component's \<^verbatim>\<open>useState\<close> cells and \<^verbatim>\<open>useRef\<close> cells are the fields of one record,
    \<open>TrackingSession\<close>. Each handler runs to completion against that record, and a
    functional state updater is applied at the place where it is enqueued. Only
    \<^verbatim>\<open>connectToServer\<close> is also given in two halves, before and after its \<^verbatim>\<open>await\<close>.
  \<^item> JavaScript numbers are modelled as mathematical reals; rounding of doubles is not
    modelled.
  \<^item> What a handler awaits from a collaborator (the stored token, a position pos, the
    clock) is a parameter of the handler.
  \<^item> \<^verbatim>\<open>Alert.alert\<close>, \<^verbatim>\<open>socket.emit\<close> and the cancellation calls are returned as a list of
    effects, in the order the handler performs them.
  \<^item> A \<^verbatim>\<open>LocationData\<close> object is never mutated after its creation, so a reference to one
    is modelled as the pair of its address and its contents; \<^verbatim>\<open>!==\<close> on two such
    references compares the addresses.
  \<^item> Presentation state (the map, \<^verbatim>\<open>currentLocation\<close>, \<^verbatim>\<open>refreshing\<close>, \<^verbatim>\<open>isMapExpanded\<close>) is
    left out.
\<close>

subsection \<open>Data model\<close>

datatype permission = granted | denied | undetermined

record LocationData =
  latitude :: real
  longitude :: real
  accuracy :: "real option"
  timestamp :: string
  speed :: "real option"
  heading :: "real option"

type_synonym addr = nat

type_synonym LocationRef = "addr \<times> LocationData"

datatype sent_type = manual | auto | test | random

record SentLocation = LocationData +
  id' :: string
  type' :: sent_type

record SessionStats =
  totalLocationsSent :: nat
  sessionStartTime :: string
  lastLocationTime :: string
  avgAccuracy :: real
  totalDistance :: real
  isActive :: bool
  randomDataGenerated :: nat

record Payload = LocationData +
  vehicleId :: string

text \<open>The texts shown in the connection status line.\<close>

datatype status_text =
    Desconectado
  | Conectando
  | Conectado
  | ErrorDeAutenticacion
  | ErrorDeConexion
  | DesconectadoReason string
  | ErrorMessage string

text \<open>The alerts of the screen, named after what they report.\<close>

datatype notice =
    PermisosRequeridos
  | ErrorUbicacion
  | TokenNoEncontrado
  | ConectadoOk
  | DesconectadoAviso
  | ErrorDeConexionAviso string
  | NoSePudoConectar
  | NoHayConexion
  | PrimeroConectar
  | PermisosTracking
  | TrackingIniciado
  | ErrorTracking
  | DatosAleatoriosIniciados
  | EnviadoOk
  | UbicacionDePrueba

datatype effect =
    Alert notice
  | Emit Payload
  | OpenSocket nat string
  | SocketDisconnect nat
  | SubscriptionRemove nat
  | ClearInterval nat

record TrackingSession =
  isConnected :: bool
  isConnecting :: bool
  isTracking :: bool
  connectionStatus :: status_text
  trackingInterval :: nat
  permissionStatus :: permission
  isGeneratingRandomData :: bool
  randomDataInterval :: nat
  sentLocations :: "SentLocation list"
  sessionStats :: SessionStats
  userVehicleId :: "string option"
  socketRef :: "nat option"
  sockets :: "bool list"
  locationSubscription :: "nat option"
  trackingIntervalRef :: "nat option"
  randomDataIntervalRef :: "nat option"
  lastLocationRef :: "LocationRef option"
  nextAddr :: addr
  nextHandle :: nat

text \<open>
  \<open>sockets\<close> is the transport's side of the model: one entry per socket instance that
  \<^verbatim>\<open>io(...)\<close> has created, holding that instance's \<^verbatim>\<open>connected\<close> property. \<open>socketRef\<close>
  holds the index of the instance the component refers to. \<open>nextAddr\<close> and \<open>nextHandle\<close>
  are the allocators of object addresses and of subscription and timer handles.
\<close>

definition initialState :: "string \<Rightarrow> string option \<Rightarrow> TrackingSession" where
  "initialState startIso vid =
     \<lparr> isConnected = False, isConnecting = False, isTracking = False,
       connectionStatus = Desconectado, trackingInterval = 5,
       permissionStatus = undetermined, isGeneratingRandomData = False,
       randomDataInterval = 3, sentLocations = [],
       sessionStats = \<lparr> totalLocationsSent = 0, sessionStartTime = startIso,
                        lastLocationTime = [], avgAccuracy = 0, totalDistance = 0,
                        isActive = False, randomDataGenerated = 0 \<rparr>,
       userVehicleId = vid, socketRef = None, sockets = [],
       locationSubscription = None, trackingIntervalRef = None,
       randomDataIntervalRef = None, lastLocationRef = None,
       nextAddr = 0, nextHandle = 1 \<rparr>"

subsection \<open>Small JavaScript idioms\<close>

text \<open>\<^verbatim>\<open>x || 0\<close> on an optional number.\<close>

definition or0 :: "real option \<Rightarrow> real" where
  "or0 a = (case a of None \<Rightarrow> 0 | Some x \<Rightarrow> x)"

text \<open>\<^verbatim>\<open>x || undefined\<close> on a nullable number: zero is falsy too.\<close>

definition orUndefined :: "real option \<Rightarrow> real option" where
  "orUndefined a = (case a of None \<Rightarrow> None | Some x \<Rightarrow> if x = 0 then None else Some x)"

text \<open>\<^verbatim>\<open>user?.vehicleId || "driver-mobile"\<close>: the empty string is falsy.\<close>

definition vehicleIdOf :: "TrackingSession \<Rightarrow> string" where
  "vehicleIdOf s =
     (case userVehicleId s of
        None \<Rightarrow> ''driver-mobile''
      | Some v \<Rightarrow> if v = [] then ''driver-mobile'' else v)"

text \<open>\<^verbatim>\<open>Math.atan2(y, x)\<close> on reals.\<close>

definition atan2 :: "real \<Rightarrow> real \<Rightarrow> real" where
  "atan2 y x =
     (if 0 < x then arctan (y / x)
      else if x < 0 then (if 0 \<le> y then arctan (y / x) + pi else arctan (y / x) - pi)
      else if 0 < y then pi / 2
      else if y < 0 then - (pi / 2)
      else 0)"

text \<open>\<^verbatim>\<open>Number.prototype.toString()\<close> on a non-negative integer: its decimal digits.\<close>

definition digitChar :: "nat \<Rightarrow> char" where
  "digitChar d = char_of (48 + d)"

fun toString :: "nat \<Rightarrow> string" where
  "toString n = (if n < 10 then [digitChar n] else toString (n div 10) @ [digitChar (n mod 10)])"

declare toString.simps [simp del]

subsection \<open>Distance\<close>

definition calculateDistance :: "real \<Rightarrow> real \<Rightarrow> real \<Rightarrow> real \<Rightarrow> real" where
  "calculateDistance lat1 lon1 lat2 lon2 =
     (let R = 6371;
          dLat = ((lat2 - lat1) * pi) / 180;
          dLon = ((lon2 - lon1) * pi) / 180;
          a = sin (dLat / 2) * sin (dLat / 2) +
              cos ((lat1 * pi) / 180) * cos ((lat2 * pi) / 180) *
              sin (dLon / 2) * sin (dLon / 2);
          c = 2 * atan2 (sqrt a) (sqrt (1 - a))
      in R * c * 1000)"

subsection \<open>Submission\<close>

text \<open>\<^verbatim>\<open>socketRef.current?.connected\<close>\<close>

definition socketConnected :: "TrackingSession \<Rightarrow> bool" where
  "socketConnected s =
     (case socketRef s of
        None \<Rightarrow> False
      | Some i \<Rightarrow> i < length (sockets s) \<and> sockets s ! i)"

definition mkPayload :: "string \<Rightarrow> LocationData \<Rightarrow> Payload" where
  "mkPayload vid d =
     \<lparr> latitude = latitude d, longitude = longitude d, accuracy = accuracy d,
       timestamp = timestamp d, speed = speed d, heading = heading d,
       vehicleId = vid \<rparr>"

definition mkSentLocation :: "LocationData \<Rightarrow> nat \<Rightarrow> sent_type \<Rightarrow> SentLocation" where
  "mkSentLocation d now ty =
     \<lparr> latitude = latitude d, longitude = longitude d, accuracy = accuracy d,
       timestamp = timestamp d, speed = speed d, heading = heading d,
       id' = toString now, type' = ty \<rparr>"

text \<open>
  The updater passed to \<^verbatim>\<open>setSessionStats\<close> in \<^verbatim>\<open>sendLocation\<close>. \<open>lastRef\<close> is the value of
  \<^verbatim>\<open>lastLocationRef.current\<close>.
\<close>

definition updateStats ::
  "LocationRef option \<Rightarrow> LocationRef \<Rightarrow> sent_type \<Rightarrow> SessionStats \<Rightarrow> SessionStats" where
  "updateStats lastRef locationData ty prev =
     (let d = snd locationData;
          newStats = prev\<lparr> totalLocationsSent := totalLocationsSent prev + 1,
                          lastLocationTime := timestamp d,
                          avgAccuracy :=
                            (if avgAccuracy prev = 0 then or0 (accuracy d)
                             else (avgAccuracy prev + or0 (accuracy d)) / 2) \<rparr>;
          newStats1 = (if ty = random
                       then newStats\<lparr> randomDataGenerated := randomDataGenerated prev + 1 \<rparr>
                       else newStats)
      in case lastRef of
           None \<Rightarrow> newStats1
         | Some l \<Rightarrow>
             if fst l \<noteq> fst locationData
             then newStats1\<lparr> totalDistance := totalDistance prev +
                    calculateDistance (latitude (snd l)) (longitude (snd l))
                                      (latitude d) (longitude d) \<rparr>
             else newStats1)"

definition sendLocation ::
  "LocationRef \<Rightarrow> sent_type \<Rightarrow> nat \<Rightarrow> TrackingSession \<Rightarrow> effect list \<times> TrackingSession" where
  "sendLocation locationData ty now s =
     (if \<not> socketConnected s then ([Alert NoHayConexion], s)
      else
        ([Emit (mkPayload (vehicleIdOf s) (snd locationData))],
         s\<lparr> sentLocations :=
               mkSentLocation (snd locationData) now ty # take 99 (sentLocations s),
             sessionStats :=
               updateStats (lastLocationRef s) locationData ty (sessionStats s) \<rparr>))"

subsection \<open>Position fetch\<close>

text \<open>What an awaited call of a collaborator gives: it rejects, or it resolves to a value.\<close>

datatype 'a awaited = Rejected | Resolved 'a

text \<open>The part of \<^verbatim>\<open>location.coords\<close> that the screen reads.\<close>

record Coords =
  coordsLatitude :: real
  coordsLongitude :: real
  coordsAccuracy :: "real option"
  coordsSpeed :: "real option"
  coordsHeading :: "real option"

text \<open>The object literal built in \<^verbatim>\<open>getCurrentLocation\<close> and in the watch callback.\<close>

definition mkLocationData :: "Coords \<Rightarrow> string \<Rightarrow> LocationData" where
  "mkLocationData c isoNow =
     \<lparr> latitude = coordsLatitude c, longitude = coordsLongitude c,
       accuracy = orUndefined (coordsAccuracy c), timestamp = isoNow,
       speed = orUndefined (coordsSpeed c), heading = orUndefined (coordsHeading c) \<rparr>"

text \<open>
  \<open>perm\<close> is the value of \<^verbatim>\<open>permissionStatus\<close> that the closure of \<^verbatim>\<open>getCurrentLocation\<close>
  sees; \<open>pos\<close> is the outcome of \<^verbatim>\<open>Location.getCurrentPositionAsync\<close>; \<open>isoNow\<close> is
  \<^verbatim>\<open>new Date().toISOString()\<close>.
\<close>

definition getCurrentLocation ::
  "permission \<Rightarrow> Coords awaited \<Rightarrow> string \<Rightarrow> TrackingSession
     \<Rightarrow> LocationRef option \<times> effect list \<times> TrackingSession" where
  "getCurrentLocation perm pos isoNow s =
     (if perm \<noteq> granted then (None, [Alert PermisosRequeridos], s)
      else case pos of
             Rejected \<Rightarrow> (None, [Alert ErrorUbicacion], s)
           | Resolved c \<Rightarrow>
               (Some (nextAddr s, mkLocationData c isoNow), [],
                s\<lparr> lastLocationRef := Some (nextAddr s, mkLocationData c isoNow),
                    nextAddr := Suc (nextAddr s) \<rparr>))"

subsection \<open>Stopping\<close>

definition stopTracking :: "TrackingSession \<Rightarrow> effect list \<times> TrackingSession" where
  "stopTracking s =
     ((case locationSubscription s of None \<Rightarrow> [] | Some h \<Rightarrow> [SubscriptionRemove h]) @
      (case trackingIntervalRef s of None \<Rightarrow> [] | Some h \<Rightarrow> [ClearInterval h]),
      s\<lparr> isTracking := False, locationSubscription := None, trackingIntervalRef := None \<rparr>)"

definition stopRandomDataGeneration :: "TrackingSession \<Rightarrow> effect list \<times> TrackingSession" where
  "stopRandomDataGeneration s =
     ((case randomDataIntervalRef s of None \<Rightarrow> [] | Some h \<Rightarrow> [ClearInterval h]),
      s\<lparr> isGeneratingRandomData := False, randomDataIntervalRef := None \<rparr>)"

text \<open>Running one handler after another, collecting the effects in order.\<close>

definition andThen ::
  "effect list \<times> TrackingSession \<Rightarrow> (TrackingSession \<Rightarrow> effect list \<times> TrackingSession)
     \<Rightarrow> effect list \<times> TrackingSession" where
  "andThen r f = (fst r @ fst (f (snd r)), snd (f (snd r)))"

subsection \<open>Connection\<close>

text \<open>
  \<^verbatim>\<open>connectToServer\<close> up to its \<^verbatim>\<open>await\<close> (\<open>connectBegin\<close>) and from the \<^verbatim>\<open>await\<close> on
  (\<open>connectResume\<close>). \<open>tok\<close> is the outcome of \<^verbatim>\<open>SecureStore.getItemAsync\<close>; the empty
  string is as falsy as a missing token.
\<close>

definition connectBegin :: "TrackingSession \<Rightarrow> TrackingSession" where
  "connectBegin s = s\<lparr> isConnecting := True, connectionStatus := Conectando \<rparr>"

definition connectResume ::
  "string option awaited \<Rightarrow> TrackingSession \<Rightarrow> effect list \<times> TrackingSession" where
  "connectResume tok s =
     (case tok of
        Rejected \<Rightarrow>
          ([Alert NoSePudoConectar],
           s\<lparr> isConnecting := False, connectionStatus := ErrorDeConexion \<rparr>)
      | Resolved None \<Rightarrow>
          ([Alert TokenNoEncontrado],
           s\<lparr> connectionStatus := ErrorDeAutenticacion, isConnecting := False \<rparr>)
      | Resolved (Some t) \<Rightarrow>
          if t = [] then
            ([Alert TokenNoEncontrado],
             s\<lparr> connectionStatus := ErrorDeAutenticacion, isConnecting := False \<rparr>)
          else
            ([OpenSocket (length (sockets s)) t],
             s\<lparr> sockets := sockets s @ [False],
                 socketRef := Some (length (sockets s)) \<rparr>))"

definition connectToServer ::
  "string option awaited \<Rightarrow> TrackingSession \<Rightarrow> effect list \<times> TrackingSession" where
  "connectToServer tok s =
     (if isConnecting s \<or> isConnected s then ([], s)
      else connectResume tok (connectBegin s))"

text \<open>The three handlers registered on the socket.\<close>

definition onConnect :: "string \<Rightarrow> TrackingSession \<Rightarrow> effect list \<times> TrackingSession" where
  "onConnect isoNow s =
     ([Alert ConectadoOk],
      s\<lparr> isConnected := True, isConnecting := False, connectionStatus := Conectado,
          sessionStats := (sessionStats s)\<lparr> sessionStartTime := isoNow, isActive := True \<rparr> \<rparr>)"

definition onDisconnect :: "string \<Rightarrow> TrackingSession \<Rightarrow> effect list \<times> TrackingSession" where
  "onDisconnect reason s =
     andThen
       (andThen
          (andThen ([], s\<lparr> isConnected := False,
                           connectionStatus := DesconectadoReason reason \<rparr>)
                   stopTracking)
          stopRandomDataGeneration)
       (\<lambda>s'. ([Alert DesconectadoAviso], s'))"

definition onConnectError :: "string \<Rightarrow> TrackingSession \<Rightarrow> effect list \<times> TrackingSession" where
  "onConnectError message s =
     ([Alert (ErrorDeConexionAviso message)],
      s\<lparr> isConnected := False, isConnecting := False,
          connectionStatus := ErrorMessage message \<rparr>)"

definition disconnectFromServer :: "TrackingSession \<Rightarrow> effect list \<times> TrackingSession" where
  "disconnectFromServer s =
     andThen
       (andThen
          (andThen
             (case socketRef s of
                None \<Rightarrow> ([], s)
              | Some i \<Rightarrow> ([SocketDisconnect i],
                           s\<lparr> sockets := (sockets s)[i := False], socketRef := None \<rparr>))
             (\<lambda>s'. ([], s'\<lparr> isConnected := False, connectionStatus := Desconectado \<rparr>)))
          stopTracking)
       (\<lambda>s'. andThen (stopRandomDataGeneration s')
                (\<lambda>s''. ([], s''\<lparr> sessionStats := (sessionStats s'')\<lparr> isActive := False \<rparr> \<rparr>)))"

subsection \<open>Tracking\<close>

text \<open>
  \<^verbatim>\<open>startTracking\<close>: \<open>pos\<close> is the outcome of the first position fetch, \<open>watchOk\<close> tells
  whether \<^verbatim>\<open>Location.watchPositionAsync\<close> resolved. The subscription and the timer get
  the next two handles.
\<close>

definition startTracking ::
  "Coords awaited \<Rightarrow> string \<Rightarrow> nat \<Rightarrow> bool \<Rightarrow> TrackingSession
     \<Rightarrow> effect list \<times> TrackingSession" where
  "startTracking pos isoNow now watchOk s =
     (if \<not> isConnected s then ([Alert PrimeroConectar], s)
      else if permissionStatus s \<noteq> granted then ([Alert PermisosTracking], s)
      else
        (case getCurrentLocation (permissionStatus s) pos isoNow (s\<lparr> isTracking := True \<rparr>) of
           (initialLocation, fx, s1) \<Rightarrow>
             andThen
               (case initialLocation of
                  None \<Rightarrow> (fx, s1)
                | Some l \<Rightarrow> andThen (fx, s1) (sendLocation l auto now))
               (\<lambda>s2. if watchOk
                      then ([Alert TrackingIniciado],
                            s2\<lparr> locationSubscription := Some (nextHandle s2),
                                trackingIntervalRef := Some (Suc (nextHandle s2)),
                                nextHandle := Suc (Suc (nextHandle s2)) \<rparr>)
                      else ([Alert ErrorTracking], s2\<lparr> isTracking := False \<rparr>))))"

text \<open>The callback of the position subscription.\<close>

definition watchCallback ::
  "Coords \<Rightarrow> string \<Rightarrow> nat \<Rightarrow> TrackingSession \<Rightarrow> effect list \<times> TrackingSession" where
  "watchCallback c isoNow now s =
     sendLocation (nextAddr s, mkLocationData c isoNow) auto now
       (s\<lparr> nextAddr := Suc (nextAddr s) \<rparr>)"

text \<open>
  The callback of the tracking timer. Its closure is the one of the render in which
  \<^verbatim>\<open>startTracking\<close> passed its permission check, so it sees \<open>granted\<close>.
\<close>

definition timerTick ::
  "Coords awaited \<Rightarrow> string \<Rightarrow> nat \<Rightarrow> TrackingSession \<Rightarrow> effect list \<times> TrackingSession" where
  "timerTick pos isoNow now s =
     (case getCurrentLocation granted pos isoNow s of
        (location, fx, s1) \<Rightarrow>
          (case location of
             None \<Rightarrow> (fx, s1)
           | Some l \<Rightarrow> andThen (fx, s1) (sendLocation l auto now)))"

subsection \<open>Manual, test and random submissions\<close>

definition sendCurrentLocationManually ::
  "Coords awaited \<Rightarrow> string \<Rightarrow> nat \<Rightarrow> TrackingSession \<Rightarrow> effect list \<times> TrackingSession" where
  "sendCurrentLocationManually pos isoNow now s =
     (if \<not> isConnected s then ([Alert PrimeroConectar], s)
      else
        (case getCurrentLocation (permissionStatus s) pos isoNow s of
           (location, fx, s1) \<Rightarrow>
             (case location of
                None \<Rightarrow> (fx, s1)
              | Some l \<Rightarrow>
                  andThen (andThen (fx, s1) (sendLocation l manual now))
                          (\<lambda>s2. ([Alert EnviadoOk], s2)))))"

text \<open>\<open>u\<close> and \<open>v\<close> are the two draws of \<^verbatim>\<open>Math.random()\<close>.\<close>

definition generateCartagenaTestLocation :: "real \<Rightarrow> real \<Rightarrow> real \<times> real" where
  "generateCartagenaTestLocation u v =
     (let north = 10.5; south = 10.28; east = -75.35; west = -75.6
      in (south + u * (north - south), west + v * (east - west)))"

definition useCartagenaTestLocation ::
  "real \<Rightarrow> real \<Rightarrow> string \<Rightarrow> nat \<Rightarrow> TrackingSession \<Rightarrow> effect list \<times> TrackingSession" where
  "useCartagenaTestLocation u v isoNow now s =
     (let testCoords = generateCartagenaTestLocation u v;
          testLocation = (nextAddr s,
             \<lparr> latitude = fst testCoords, longitude = snd testCoords,
               accuracy = Some 15, timestamp = isoNow, speed = None, heading = None \<rparr>);
          s1 = s\<lparr> lastLocationRef := Some testLocation, nextAddr := Suc (nextAddr s) \<rparr>
      in andThen
           (if isConnected s then sendLocation testLocation test now s1 else ([], s1))
           (\<lambda>s2. ([Alert UbicacionDePrueba], s2)))"

definition startRandomDataGeneration :: "TrackingSession \<Rightarrow> effect list \<times> TrackingSession" where
  "startRandomDataGeneration s =
     (if \<not> isConnected s then ([Alert PrimeroConectar], s)
      else ([Alert DatosAleatoriosIniciados],
            s\<lparr> isGeneratingRandomData := True,
                randomDataIntervalRef := Some (nextHandle s),
                nextHandle := Suc (nextHandle s) \<rparr>))"

text \<open>
  The callback of the random-data timer and the callback of each point of a random route:
  both build a fresh \<^verbatim>\<open>LocationData\<close> from generated values (\<open>lat\<close>, \<open>lng\<close>, \<open>acc\<close>,
  \<open>spd\<close>, the outputs of the generators) and submit it as \<open>random\<close>.
\<close>

definition sendRandomPoint ::
  "real \<Rightarrow> real \<Rightarrow> real \<Rightarrow> real \<Rightarrow> string \<Rightarrow> nat \<Rightarrow> TrackingSession
     \<Rightarrow> effect list \<times> TrackingSession" where
  "sendRandomPoint lat lng acc spd isoNow now s =
     sendLocation
       (nextAddr s,
        \<lparr> latitude = lat, longitude = lng, accuracy = Some acc, timestamp = isoNow,
          speed = Some spd, heading = None \<rparr>)
       random now (s\<lparr> nextAddr := Suc (nextAddr s) \<rparr>)"

subsection \<open>History\<close>

text \<open>The confirmed branch of \<^verbatim>\<open>clearHistory\<close>.\<close>

definition clearHistory :: "TrackingSession \<Rightarrow> effect list \<times> TrackingSession" where
  "clearHistory s =
     ([], s\<lparr> sentLocations := [],
             sessionStats := (sessionStats s)\<lparr> totalLocationsSent := 0, totalDistance := 0,
                                              avgAccuracy := 0, randomDataGenerated := 0 \<rparr> \<rparr>)"

subsection \<open>The session as a state machine\<close>

text \<open>
  One event per handler that the user, a timer, the position provider or the transport
  can trigger (\<open>SetPermission\<close> stands for every place that stores a permission status,
  \<open>SetInterval\<close> for the interval buttons, \<open>RandomFired\<close> for a tick of the random-data
  timer and for a point of a random route). A socket event names the socket instance it comes from; the transport
  delivers \<^verbatim>\<open>connect\<close> and \<^verbatim>\<open>connect_error\<close> only on an instance that is not connected and
  \<^verbatim>\<open>disconnect\<close> only on one that is, and sets the instance's \<^verbatim>\<open>connected\<close> property before
  the handler runs.
\<close>

datatype event =
    SetPermission permission
  | SetInterval nat
  | Refresh "Coords awaited" string
  | Connect "string option awaited"
  | SocketConnect nat string
  | SocketDisconnectEvent nat string
  | SocketConnectError nat string
  | Disconnect
  | StartTracking "Coords awaited" string nat bool
  | WatchFired Coords string nat
  | TimerFired "Coords awaited" string nat
  | StopTracking
  | SendManual "Coords awaited" string nat
  | TestLocation real real string nat
  | StartRandom
  | RandomFired real real real real string nat
  | StopRandom
  | ClearHistory

fun step :: "event \<Rightarrow> TrackingSession \<Rightarrow> effect list \<times> TrackingSession" where
  "step (SetPermission p) s = ([], s\<lparr> permissionStatus := p \<rparr>)"
| "step (SetInterval n) s = ([], s\<lparr> trackingInterval := n, randomDataInterval := n \<rparr>)"
| "step (Refresh pos isoNow) s =
     (case getCurrentLocation (permissionStatus s) pos isoNow s of (_, fx, s1) \<Rightarrow> (fx, s1))"
| "step (Connect tok) s = connectToServer tok s"
| "step (SocketConnect i isoNow) s =
     (if i < length (sockets s) \<and> \<not> sockets s ! i
      then onConnect isoNow (s\<lparr> sockets := (sockets s)[i := True] \<rparr>)
      else ([], s))"
| "step (SocketDisconnectEvent i reason) s =
     (if i < length (sockets s) \<and> sockets s ! i
      then onDisconnect reason (s\<lparr> sockets := (sockets s)[i := False] \<rparr>)
      else ([], s))"
| "step (SocketConnectError i message) s =
     (if i < length (sockets s) \<and> \<not> sockets s ! i
      then onConnectError message s
      else ([], s))"
| "step Disconnect s = disconnectFromServer s"
| "step (StartTracking pos isoNow now watchOk) s = startTracking pos isoNow now watchOk s"
| "step (WatchFired c isoNow now) s = watchCallback c isoNow now s"
| "step (TimerFired pos isoNow now) s = timerTick pos isoNow now s"
| "step StopTracking s = stopTracking s"
| "step (SendManual pos isoNow now) s = sendCurrentLocationManually pos isoNow now s"
| "step (TestLocation u v isoNow now) s = useCartagenaTestLocation u v isoNow now s"
| "step StartRandom s = startRandomDataGeneration s"
| "step (RandomFired lat lng acc spd isoNow now) s = sendRandomPoint lat lng acc spd isoNow now s"
| "step StopRandom s = stopRandomDataGeneration s"
| "step ClearHistory s = clearHistory s"

fun run :: "event list \<Rightarrow> TrackingSession \<Rightarrow> TrackingSession" where
  "run [] s = s"
| "run (e # es) s = run es (snd (step e s))"

inductive reachable :: "TrackingSession \<Rightarrow> bool" where
  reachable_init: "reachable (initialState startIso vid)"
| reachable_step: "reachable s \<Longrightarrow> reachable (snd (step e s))"

code_pred reachable .

text \<open>The effects of a run, in order, and the test for a message emitted on the transport.\<close>

fun effectsOf :: "event list \<Rightarrow> TrackingSession \<Rightarrow> effect list" where
  "effectsOf [] s = []"
| "effectsOf (e # es) s = fst (step e s) @ effectsOf es (snd (step e s))"

fun isEmit :: "effect \<Rightarrow> bool" where
  "isEmit (Emit p) = True"
| "isEmit _ = False"

definition sent :: "TrackingSession \<Rightarrow> nat" where
  "sent s = totalLocationsSent (sessionStats s)"

text \<open>A sequence of calls of \<^verbatim>\<open>sendLocation\<close>, each with its sample, kind and clock reading.\<close>

fun sendAll ::
  "(LocationRef \<times> sent_type \<times> nat) list \<Rightarrow> TrackingSession \<Rightarrow> TrackingSession" where
  "sendAll [] s = s"
| "sendAll ((l, ty, now) # xs) s = sendAll xs (snd (sendLocation l ty now s))"

text \<open>The record that a successful call of \<^verbatim>\<open>sendLocation\<close> puts in front of the history.\<close>

definition sentOf :: "LocationRef \<times> sent_type \<times> nat \<Rightarrow> SentLocation" where
  "sentOf x = (case x of (l, ty, now) \<Rightarrow> mkSentLocation (snd l) now ty)"

subsection \<open>Example sessions\<close>

text \<open>A session that has been granted the permission and has connected with a stored token.\<close>

definition connectedSession :: TrackingSession where
  "connectedSession =
     run [SetPermission granted,
          Connect (Resolved (Some ''abc123'')),
          SocketConnect 0 ''2024-01-01T00:00:01.000Z'']
         (initialState ''2024-01-01T00:00:00.000Z'' (Some ''veh-1''))"

definition fixAt :: "real \<Rightarrow> real \<Rightarrow> Coords" where
  "fixAt lat lon =
     \<lparr> coordsLatitude = lat, coordsLongitude = lon, coordsAccuracy = Some 5,
       coordsSpeed = None, coordsHeading = None \<rparr>"

definition sampleAt :: "addr \<Rightarrow> real \<Rightarrow> real \<Rightarrow> LocationRef" where
  "sampleAt a lat lon = (a, mkLocationData (fixAt lat lon) ''2024-01-01T00:00:02.000Z'')"

text \<open>
  The same stored token, but the first transport instance fails to connect, the user
  connects again, starts tracking on the second instance, and then the first instance,
  which is still retrying, fails once more.
\<close>

definition staleSocketSession :: TrackingSession where
  "staleSocketSession =
     run [SetPermission granted,
          Connect (Resolved (Some ''abc123'')),
          SocketConnectError 0 ''timeout'',
          Connect (Resolved (Some ''abc123'')),
          SocketConnect 1 ''2024-01-01T00:00:01.000Z'',
          StartTracking (Resolved (fixAt 10 (-75))) ''2024-01-01T00:00:02.000Z'' 1000 True,
          SocketConnectError 0 ''timeout'']
         (initialState ''2024-01-01T00:00:00.000Z'' (Some ''veh-1''))"

text \<open>Two manual submissions, 0.001 degrees of latitude apart.\<close>

definition manualTwice :: TrackingSession where
  "manualTwice =
     run [SendManual (Resolved (fixAt 10 (-75))) ''2024-01-01T00:00:02.000Z'' 1000,
          SendManual (Resolved (fixAt 10.001 (-75))) ''2024-01-01T00:00:07.000Z'' 2000]
         connectedSession"

text \<open>
  Tracking starts at latitude 10.001, a pull-to-refresh fetches a fix at latitude 10 that
  is not submitted, and the subscription then delivers a sample at latitude 10.001 again.
\<close>

definition refreshThenWatch :: TrackingSession where
  "refreshThenWatch =
     run [StartTracking (Resolved (fixAt 10.001 (-75))) ''2024-01-01T00:00:02.000Z'' 1000 True,
          Refresh (Resolved (fixAt 10 (-75))) ''2024-01-01T00:00:03.000Z'',
          WatchFired (fixAt 10.001 (-75)) ''2024-01-01T00:00:04.000Z'' 3000]
         connectedSession"

text \<open>One point of a random route.\<close>

definition randomSession :: TrackingSession where
  "randomSession =
     run [RandomFired 10.42 (-75.54) 12 30 ''2024-01-01T00:00:02.000Z'' 1700000000000]
         connectedSession"

text \<open>
  While tracking, the timer's fetch resolves and the subscription delivers a sample within
  the same millisecond.
\<close>

definition sameClockSession :: TrackingSession where
  "sameClockSession =
     run [StartTracking (Resolved (fixAt 10 (-75))) ''2024-01-01T00:00:02.000Z''
            1700000000000 True,
          TimerFired (Resolved (fixAt 10 (-75))) ''2024-01-01T00:00:07.000Z'' 1700000005000,
          WatchFired (fixAt 10 (-75)) ''2024-01-01T00:00:07.000Z'' 1700000005000]
         connectedSession"

text \<open>
  The kind that the handler of an event passes to \<^verbatim>\<open>sendLocation\<close>, for the events whose
  handler calls it: \<^verbatim>\<open>"auto"\<close> in \<^verbatim>\<open>startTracking\<close>, in the subscription callback and in the
  timer callback, \<^verbatim>\<open>"manual"\<close> in \<^verbatim>\<open>sendCurrentLocationManually\<close>, \<^verbatim>\<open>"test"\<close> in
  \<^verbatim>\<open>useCartagenaTestLocation\<close>, \<^verbatim>\<open>"random"\<close> in the random-data callbacks.
\<close>

fun kindOf :: "event \<Rightarrow> sent_type option" where
  "kindOf (StartTracking pos isoNow now watchOk) = Some auto"
| "kindOf (WatchFired c isoNow now) = Some auto"
| "kindOf (TimerFired pos isoNow now) = Some auto"
| "kindOf (SendManual pos isoNow now) = Some manual"
| "kindOf (TestLocation u v isoNow now) = Some test"
| "kindOf (RandomFired lat lng acc spd isoNow now) = Some random"
| "kindOf _ = None"

text \<open>
  The events whose handler calls \<^verbatim>\<open>getCurrentLocation\<close> or is \<^verbatim>\<open>useCartagenaTestLocation\<close>.
\<close>

fun writesLastLocation :: "event \<Rightarrow> bool" where
  "writesLastLocation (Refresh pos isoNow) = True"
| "writesLastLocation (StartTracking pos isoNow now watchOk) = True"
| "writesLastLocation (TimerFired pos isoNow now) = True"
| "writesLastLocation (SendManual pos isoNow now) = True"
| "writesLastLocation (TestLocation u v isoNow now) = True"
| "writesLastLocation _ = False"

section \<open>Auxiliary facts\<close>

lemma snd_andThen [simp]: "snd (andThen r f) = snd (f (snd r))"
  by (simp add: andThen_def)

lemma fst_andThen [simp]: "fst (andThen r f) = fst r @ fst (f (snd r))"
  by (simp add: andThen_def)

lemma sendLocation_connected:
  "socketConnected s \<Longrightarrow>
   sendLocation l ty now s =
     ([Emit (mkPayload (vehicleIdOf s) (snd l))],
      s\<lparr> sentLocations := mkSentLocation (snd l) now ty # take 99 (sentLocations s),
          sessionStats := updateStats (lastLocationRef s) l ty (sessionStats s) \<rparr>)"
  by (simp add: sendLocation_def)

lemma socketRef_sendLocation [simp]:
  "socketRef (snd (sendLocation l ty now s)) = socketRef s"
  by (simp add: sendLocation_def)

lemma sockets_sendLocation [simp]:
  "sockets (snd (sendLocation l ty now s)) = sockets s"
  by (simp add: sendLocation_def)

lemma socketConnected_sendLocation [simp]:
  "socketConnected (snd (sendLocation l ty now s)) = socketConnected s"
  by (simp add: socketConnected_def split: option.splits)

lemma totalLocationsSent_updateStats [simp]:
  "totalLocationsSent (updateStats r l ty prev) = Suc (totalLocationsSent prev)"
  by (simp add: updateStats_def Let_def split: option.splits)

lemma lastLocationTime_updateStats [simp]:
  "lastLocationTime (updateStats r l ty prev) = timestamp (snd l)"
  by (simp add: updateStats_def Let_def split: option.splits)

lemma avgAccuracy_updateStats [simp]:
  "avgAccuracy (updateStats r l ty prev) =
     (if avgAccuracy prev = 0 then or0 (accuracy (snd l))
      else (avgAccuracy prev + or0 (accuracy (snd l))) / 2)"
  by (simp add: updateStats_def Let_def split: option.splits)

lemma take_append_take: "take n (xs @ take n ys) = take n (xs @ ys)"
  by (simp add: min_def)

lemma sendAll_history:
  "socketConnected s \<Longrightarrow> length (sentLocations s) \<le> 100 \<Longrightarrow>
   sentLocations (sendAll xs s) = take 100 (rev (map sentOf xs) @ sentLocations s)"
proof (induction xs arbitrary: s)
  case Nil
  then show ?case by simp
next
  case (Cons x xs)
  obtain l ty now where x: "x = (l, ty, now)" by (cases x) auto
  let ?s1 = "snd (sendLocation l ty now s)"
  have c: "socketConnected ?s1" using Cons.prems by simp
  have h: "sentLocations ?s1 = take 100 (sentOf x # sentLocations s)"
    using Cons.prems by (simp add: x sendLocation_connected sentOf_def)
  have b: "length (sentLocations ?s1) \<le> 100" by (simp add: h)
  have "sentLocations (sendAll xs ?s1) = take 100 (rev (map sentOf xs) @ sentLocations ?s1)"
    using Cons.IH [OF c b] .
  then show ?case by (simp add: x h take_append_take del: take_Cons_numeral)
qed

subsection \<open>The history bound along every step\<close>

lemma sentLocations_sendLocation_le:
  "length (sentLocations s) \<le> 100 \<Longrightarrow>
   length (sentLocations (snd (sendLocation l ty now s))) \<le> 100"
  by (simp add: sendLocation_def)

lemma getCurrentLocation_history:
  "getCurrentLocation perm pos isoNow s = (r, fx, s1) \<Longrightarrow> sentLocations s1 = sentLocations s"
  by (auto simp: getCurrentLocation_def split: if_splits awaited.splits)

lemma sentLocations_stopTracking [simp]:
  "sentLocations (snd (stopTracking s)) = sentLocations s"
  by (simp add: stopTracking_def)

lemma sentLocations_stopRandom [simp]:
  "sentLocations (snd (stopRandomDataGeneration s)) = sentLocations s"
  by (simp add: stopRandomDataGeneration_def)

lemma startTracking_history_le:
  "length (sentLocations s) \<le> 100 \<Longrightarrow>
   length (sentLocations (snd (startTracking pos isoNow now watchOk s))) \<le> 100"
  by (auto simp: startTracking_def sentLocations_sendLocation_le
      dest!: getCurrentLocation_history split: prod.splits option.splits)

lemma timerTick_history_le:
  "length (sentLocations s) \<le> 100 \<Longrightarrow>
   length (sentLocations (snd (timerTick pos isoNow now s))) \<le> 100"
  by (auto simp: timerTick_def sentLocations_sendLocation_le
      dest!: getCurrentLocation_history split: prod.splits option.splits)

lemma sendManually_history_le:
  "length (sentLocations s) \<le> 100 \<Longrightarrow>
   length (sentLocations (snd (sendCurrentLocationManually pos isoNow now s))) \<le> 100"
  by (auto simp: sendCurrentLocationManually_def sentLocations_sendLocation_le
      dest!: getCurrentLocation_history split: prod.splits option.splits)

lemma connectToServer_history [simp]:
  "sentLocations (snd (connectToServer tok s)) = sentLocations s"
  by (simp add: connectToServer_def connectResume_def connectBegin_def
      split: awaited.splits option.splits)

lemma step_history_le:
  assumes "length (sentLocations s) \<le> 100"
  shows "length (sentLocations (snd (step e s))) \<le> 100"
proof (cases e)
  case (Refresh pos isoNow)
  show ?thesis using assms
    by (auto simp: Refresh dest!: getCurrentLocation_history split: prod.splits)
next
  case (WatchFired c isoNow now)
  show ?thesis using assms
    by (simp add: WatchFired watchCallback_def sentLocations_sendLocation_le)
next
  case (TestLocation u v isoNow now)
  show ?thesis using assms
    by (simp add: TestLocation useCartagenaTestLocation_def Let_def
        sentLocations_sendLocation_le)
next
  case (RandomFired lat lng acc spd isoNow now)
  show ?thesis using assms
    by (simp add: RandomFired sendRandomPoint_def sentLocations_sendLocation_le)
qed (use assms in \<open>simp_all add: onConnect_def onDisconnect_def onConnectError_def
      disconnectFromServer_def startRandomDataGeneration_def clearHistory_def
      startTracking_history_le timerTick_history_le sendManually_history_le
      split: option.splits\<close>)

lemma reachable_history_le: "reachable s \<Longrightarrow> length (sentLocations s) \<le> 100"
proof (induction rule: reachable.induct)
  case (reachable_init startIso vid)
  show ?case by (simp add: initialState_def)
next
  case (reachable_step s e)
  then show ?case by (simp add: step_history_le)
qed

lemma reachable_run: "reachable s \<Longrightarrow> reachable (run es s)"
  by (induction es arbitrary: s) (auto intro: reachable_step)

subsection \<open>The counter along every step\<close>

lemma sendAll_count:
  "socketConnected s \<Longrightarrow> sent (sendAll xs s) = sent s + length xs"
proof (induction xs arbitrary: s)
  case Nil
  then show ?case by simp
next
  case (Cons x xs)
  obtain l ty now where x: "x = (l, ty, now)" by (cases x) auto
  have c: "socketConnected (snd (sendLocation l ty now s))" using Cons.prems by simp
  show ?case using Cons.IH [OF c] Cons.prems
    by (simp add: x sendLocation_connected sent_def)
qed

lemma sendLocation_counts:
  "sent (snd (sendLocation l ty now s)) =
     sent s + length (filter isEmit (fst (sendLocation l ty now s)))"
  by (simp add: sendLocation_def sent_def)

lemma getCurrentLocation_counts:
  "getCurrentLocation perm pos isoNow s = (r, fx, s1) \<Longrightarrow>
   sent s1 = sent s \<and> filter isEmit fx = []"
  by (auto simp: getCurrentLocation_def sent_def split: if_splits awaited.splits)

lemma stopTracking_counts [simp]:
  "sent (snd (stopTracking s)) = sent s" "filter isEmit (fst (stopTracking s)) = []"
  by (simp_all add: stopTracking_def sent_def split: option.splits)

lemma stopRandom_counts [simp]:
  "sent (snd (stopRandomDataGeneration s)) = sent s"
  "filter isEmit (fst (stopRandomDataGeneration s)) = []"
  by (simp_all add: stopRandomDataGeneration_def sent_def split: option.splits)

lemma sent_update [simp]:
  "sent (s\<lparr> isTracking := a \<rparr>) = sent s"
  "sent (s\<lparr> isConnected := a \<rparr>) = sent s"
  "sent (s\<lparr> isConnecting := a \<rparr>) = sent s"
  "sent (s\<lparr> connectionStatus := b \<rparr>) = sent s"
  "sent (s\<lparr> nextAddr := n \<rparr>) = sent s"
  "sent (s\<lparr> nextHandle := n \<rparr>) = sent s"
  "sent (s\<lparr> lastLocationRef := c \<rparr>) = sent s"
  "sent (s\<lparr> locationSubscription := d \<rparr>) = sent s"
  "sent (s\<lparr> trackingIntervalRef := d \<rparr>) = sent s"
  "sent (s\<lparr> randomDataIntervalRef := d \<rparr>) = sent s"
  "sent (s\<lparr> isGeneratingRandomData := a \<rparr>) = sent s"
  "sent (s\<lparr> sockets := e \<rparr>) = sent s"
  "sent (s\<lparr> socketRef := d \<rparr>) = sent s"
  "sent (s\<lparr> permissionStatus := f \<rparr>) = sent s"
  "sent (s\<lparr> trackingInterval := n \<rparr>) = sent s"
  "sent (s\<lparr> randomDataInterval := n \<rparr>) = sent s"
  by (simp_all add: sent_def)

lemma sessionStats_stops [simp]:
  "sessionStats (snd (stopTracking s)) = sessionStats s"
  "sessionStats (snd (stopRandomDataGeneration s)) = sessionStats s"
  by (simp_all add: stopTracking_def stopRandomDataGeneration_def)

lemma startTracking_counts:
  "sent (snd (startTracking pos isoNow now watchOk s)) =
     sent s + length (filter isEmit (fst (startTracking pos isoNow now watchOk s)))"
  by (auto simp: startTracking_def sendLocation_counts
      dest!: getCurrentLocation_counts split: prod.splits option.splits)

lemma timerTick_counts:
  "sent (snd (timerTick pos isoNow now s)) =
     sent s + length (filter isEmit (fst (timerTick pos isoNow now s)))"
  by (auto simp: timerTick_def sendLocation_counts
      dest!: getCurrentLocation_counts split: prod.splits option.splits)

lemma sendManually_counts:
  "sent (snd (sendCurrentLocationManually pos isoNow now s)) =
     sent s + length (filter isEmit (fst (sendCurrentLocationManually pos isoNow now s)))"
  by (auto simp: sendCurrentLocationManually_def sendLocation_counts
      dest!: getCurrentLocation_counts split: prod.splits option.splits)

lemma connectToServer_counts:
  "sent (snd (connectToServer tok s)) = sent s"
  "filter isEmit (fst (connectToServer tok s)) = []"
  by (simp_all add: connectToServer_def connectResume_def connectBegin_def
      split: awaited.splits option.splits)

lemma step_counts:
  assumes "e \<noteq> ClearHistory"
  shows "sent (snd (step e s)) = sent s + length (filter isEmit (fst (step e s)))"
proof (cases e)
  case (Refresh pos isoNow)
  show ?thesis
    by (auto simp: Refresh dest!: getCurrentLocation_counts split: prod.splits)
next
  case (WatchFired c isoNow now)
  show ?thesis
    using sendLocation_counts [of "(nextAddr s, mkLocationData c isoNow)" auto now
        "s\<lparr>nextAddr := Suc (nextAddr s)\<rparr>"]
    by (simp add: WatchFired watchCallback_def)
next
  case (TestLocation u v isoNow now)
  show ?thesis
    by (simp add: TestLocation useCartagenaTestLocation_def Let_def sendLocation_counts)
next
  case (RandomFired lat lng acc spd isoNow now)
  show ?thesis
    using sendLocation_counts [of _ random now "s\<lparr>nextAddr := Suc (nextAddr s)\<rparr>"]
    by (simp add: RandomFired sendRandomPoint_def)
next
  case (SocketConnect i isoNow)
  show ?thesis by (simp add: SocketConnect onConnect_def sent_def)
next
  case Disconnect
  show ?thesis
    by (simp add: Disconnect disconnectFromServer_def sent_def split: option.splits)
qed (use assms in \<open>simp_all add: onDisconnect_def onConnectError_def
      startRandomDataGeneration_def
      startTracking_counts timerTick_counts sendManually_counts connectToServer_counts
      split: option.splits\<close>)

lemma run_counts:
  "ClearHistory \<notin> set es \<Longrightarrow>
   sent (run es s) = sent s + length (filter isEmit (effectsOf es s))"
proof (induction es arbitrary: s)
  case Nil
  show ?case by simp
next
  case (Cons e es)
  then have "e \<noteq> ClearHistory" "ClearHistory \<notin> set es" by auto
  then show ?case
    using Cons.IH [of "snd (step e s)"] step_counts [of e s] by simp
qed

subsection \<open>The two handlers of a lost connection\<close>

lemma onDisconnect_cascades:
  "isConnected (snd (onDisconnect reason s)) = False"
  "isTracking (snd (onDisconnect reason s)) = False"
  "locationSubscription (snd (onDisconnect reason s)) = None"
  "trackingIntervalRef (snd (onDisconnect reason s)) = None"
  "randomDataIntervalRef (snd (onDisconnect reason s)) = None"
  by (simp_all add: onDisconnect_def stopTracking_def stopRandomDataGeneration_def)

lemma onConnectError_keeps_sampling:
  "isConnected (snd (onConnectError message s)) = False"
  "isTracking (snd (onConnectError message s)) = isTracking s"
  "locationSubscription (snd (onConnectError message s)) = locationSubscription s"
  "trackingIntervalRef (snd (onConnectError message s)) = trackingIntervalRef s"
  "randomDataIntervalRef (snd (onConnectError message s)) = randomDataIntervalRef s"
  by (simp_all add: onConnectError_def)

subsection \<open>The kind of the record an event creates\<close>

lemma sendLocation_kind:
  "filter isEmit (fst (sendLocation l ty now s)) \<noteq> [] \<Longrightarrow>
   type' (hd (sentLocations (snd (sendLocation l ty now s)))) = ty"
  by (simp add: sendLocation_def mkSentLocation_def split: if_splits)

lemma getCurrentLocation_noEmit:
  "getCurrentLocation perm pos isoNow s = (r, fx, s1) \<Longrightarrow> filter isEmit fx = []"
  by (auto simp: getCurrentLocation_def split: if_splits awaited.splits)

lemma startTracking_kind:
  "filter isEmit (fst (startTracking pos isoNow now watchOk s)) \<noteq> [] \<Longrightarrow>
   type' (hd (sentLocations (snd (startTracking pos isoNow now watchOk s)))) = auto"
  by (auto simp: startTracking_def sendLocation_kind
      dest!: getCurrentLocation_noEmit split: prod.splits option.splits if_splits)

lemma timerTick_kind:
  "filter isEmit (fst (timerTick pos isoNow now s)) \<noteq> [] \<Longrightarrow>
   type' (hd (sentLocations (snd (timerTick pos isoNow now s)))) = auto"
  by (auto simp: timerTick_def sendLocation_kind
      dest!: getCurrentLocation_noEmit split: prod.splits option.splits if_splits)

lemma sendManually_kind:
  "filter isEmit (fst (sendCurrentLocationManually pos isoNow now s)) \<noteq> [] \<Longrightarrow>
   type' (hd (sentLocations (snd (sendCurrentLocationManually pos isoNow now s)))) = manual"
  by (auto simp: sendCurrentLocationManually_def sendLocation_kind
      dest!: getCurrentLocation_noEmit split: prod.splits option.splits if_splits)

lemma step_kind:
  assumes "filter isEmit (fst (step e s)) \<noteq> []"
  shows "kindOf e = Some (type' (hd (sentLocations (snd (step e s)))))"
proof (cases e)
  case (Refresh pos isoNow)
  show ?thesis using assms
    by (auto simp: Refresh dest!: getCurrentLocation_noEmit split: prod.splits)
next
  case (WatchFired c isoNow now)
  show ?thesis using assms
    by (simp add: WatchFired watchCallback_def sendLocation_kind)
next
  case (TestLocation u v isoNow now)
  show ?thesis using assms
    by (simp add: TestLocation useCartagenaTestLocation_def Let_def sendLocation_kind
        split: if_splits)
next
  case (RandomFired lat lng acc spd isoNow now)
  show ?thesis using assms
    by (simp add: RandomFired sendRandomPoint_def sendLocation_kind)
next
  case (StartTracking pos isoNow now watchOk)
  show ?thesis using assms by (simp add: StartTracking startTracking_kind)
next
  case (TimerFired pos isoNow now)
  show ?thesis using assms by (simp add: TimerFired timerTick_kind)
next
  case (SendManual pos isoNow now)
  show ?thesis using assms by (simp add: SendManual sendManually_kind)
qed (use assms in \<open>simp_all add: onConnect_def onDisconnect_def onConnectError_def
      disconnectFromServer_def startRandomDataGeneration_def clearHistory_def
      connectToServer_counts split: option.splits if_splits\<close>)

subsection \<open>Decimal rendering is injective\<close>

lemma toString_examples: "toString 1000 = ''1000''" "toString 2000 = ''2000''"
  by code_simp+

lemma toString_not_Nil: "toString n \<noteq> []"
  by (subst toString.simps) simp

lemma digitChar_inj: "a < 10 \<Longrightarrow> b < 10 \<Longrightarrow> digitChar a = digitChar b \<Longrightarrow> a = b"
  by (simp add: digitChar_def char_of_eq_iff take_bit_eq_mod)

lemma toString_inj: "toString n = toString m \<Longrightarrow> n = m"
proof (induction n arbitrary: m rule: toString.induct)
  case (1 n)
  show ?case
  proof (cases "n < 10")
    case True
    show ?thesis
    proof (cases "m < 10")
      case True
      with \<open>n < 10\<close> "1.prems" show ?thesis
        by (simp add: toString.simps [of n] toString.simps [of m] digitChar_inj)
    next
      case False
      with \<open>n < 10\<close> "1.prems" show ?thesis
        using toString_not_Nil [of "m div 10"]
        by (simp add: toString.simps [of n] toString.simps [of m])
    qed
  next
    case False
    show ?thesis
    proof (cases "m < 10")
      case True
      with \<open>\<not> n < 10\<close> "1.prems" show ?thesis
        using toString_not_Nil [of "n div 10"]
        by (simp add: toString.simps [of n] toString.simps [of m])
    next
      case mf: False
      from False mf "1.prems"
      have e: "toString (n div 10) = toString (m div 10)"
        "digitChar (n mod 10) = digitChar (m mod 10)"
        by (simp_all add: toString.simps [of n] toString.simps [of m])
      have "n div 10 = m div 10" using "1.IH" [OF False e(1)] .
      moreover have "n mod 10 = m mod 10" using e(2) by (simp add: digitChar_inj)
      ultimately show ?thesis by (metis div_mult_mod_eq)
    qed
  qed
qed

subsection \<open>The example session\<close>

lemma connectedSession_eq:
  "connectedSession =
     \<lparr> isConnected = True, isConnecting = False, isTracking = False,
       connectionStatus = Conectado, trackingInterval = 5,
       permissionStatus = granted, isGeneratingRandomData = False,
       randomDataInterval = 3, sentLocations = [],
       sessionStats = \<lparr> totalLocationsSent = 0,
                        sessionStartTime = ''2024-01-01T00:00:01.000Z'',
                        lastLocationTime = [], avgAccuracy = 0, totalDistance = 0,
                        isActive = True, randomDataGenerated = 0 \<rparr>,
       userVehicleId = Some ''veh-1'', socketRef = Some 0, sockets = [True],
       locationSubscription = None, trackingIntervalRef = None,
       randomDataIntervalRef = None, lastLocationRef = None,
       nextAddr = 0, nextHandle = 1 \<rparr>"
  by (simp add: connectedSession_def initialState_def connectToServer_def connectBegin_def
      connectResume_def onConnect_def)

lemma connectedSession_connected: "socketConnected connectedSession"
  by (simp add: connectedSession_eq socketConnected_def)

lemma connectedSession_reachable: "reachable connectedSession"
  unfolding connectedSession_def by (rule reachable_run) (rule reachable_init)

subsection \<open>Distance along a meridian\<close>

lemma calculateDistance_same: "calculateDistance lat lon lat lon = 0"
  by (simp add: calculateDistance_def atan2_def)

lemma calculateDistance_meridian:
  assumes "lat1 < lat2" "lat2 - lat1 < 180"
  shows "calculateDistance lat1 lon lat2 lon = 6371000 * ((lat2 - lat1) * pi / 180)"
proof -
  define x where "x = ((lat2 - lat1) * pi / 180) / 2"
  have x0: "0 < x" using assms by (simp add: x_def)
  have x1: "x < pi / 2" using assms by (simp add: x_def)
  have s: "0 < sin x" using x0 x1 by (intro sin_gt_zero) (use pi_gt_zero in linarith)+
  have c: "0 < cos x" using x0 x1 by (intro cos_gt_zero)
  have a: "1 - sin x * sin x = cos x * cos x"
    using sin_cos_squared_add3 [of x] by (simp add: algebra_simps)
  have t: "arctan (sin x / cos x) = x"
    using arctan_tan [of x] x0 x1 by (simp add: tan_def)
  have "calculateDistance lat1 lon lat2 lon =
      6371 * (2 * atan2 (sqrt (sin x * sin x)) (sqrt (1 - sin x * sin x))) * 1000"
    by (simp add: calculateDistance_def Let_def x_def)
  also have "\<dots> = 6371 * (2 * atan2 (sin x) (cos x)) * 1000"
    using s c by (simp add: a)
  also have "\<dots> = 6371 * (2 * x) * 1000"
    using c by (simp add: atan2_def t)
  finally show ?thesis by (simp add: x_def)
qed

lemma calculateDistance_example_pos: "0 < calculateDistance 10 (-75) 10.001 (-75)"
  by (simp add: calculateDistance_meridian)

subsection \<open>Who writes the last-location reference\<close>

lemma lastLocationRef_sendLocation [simp]:
  "lastLocationRef (snd (sendLocation l ty now s)) = lastLocationRef s"
  by (simp add: sendLocation_def)

lemma lastLocationRef_stopTracking [simp]:
  "lastLocationRef (snd (stopTracking s)) = lastLocationRef s"
  by (simp add: stopTracking_def)

lemma lastLocationRef_stopRandom [simp]:
  "lastLocationRef (snd (stopRandomDataGeneration s)) = lastLocationRef s"
  by (simp add: stopRandomDataGeneration_def)

lemma lastLocationRef_connectToServer [simp]:
  "lastLocationRef (snd (connectToServer tok s)) = lastLocationRef s"
  by (simp add: connectToServer_def connectResume_def connectBegin_def
      split: awaited.splits option.splits)

lemma lastLocationRef_watchCallback [simp]:
  "lastLocationRef (snd (watchCallback c isoNow now s)) = lastLocationRef s"
  by (simp add: watchCallback_def)

lemma step_keeps_lastLocationRef:
  "\<not> writesLastLocation e \<Longrightarrow> lastLocationRef (snd (step e s)) = lastLocationRef s"
  by (cases e)
     (simp_all add: onConnect_def onDisconnect_def onConnectError_def
        disconnectFromServer_def startRandomDataGeneration_def clearHistory_def
        sendRandomPoint_def split: option.splits)

subsection \<open>The other example sessions\<close>

lemmas handler_defs =
  connectToServer_def connectBegin_def connectResume_def onConnect_def onConnectError_def
  startTracking_def getCurrentLocation_def sendLocation_def socketConnected_def
  updateStats_def mkSentLocation_def mkLocationData_def fixAt_def orUndefined_def or0_def
  watchCallback_def timerTick_def sendCurrentLocationManually_def sendRandomPoint_def
  andThen_def

lemma staleSocketSession_flags:
  "isConnected staleSocketSession = False"
  "isTracking staleSocketSession = True"
  "locationSubscription staleSocketSession = Some 1"
  "trackingIntervalRef staleSocketSession = Some 2"
  "socketRef staleSocketSession = Some 1"
  "sockets staleSocketSession = [False, True]"
  by (simp_all add: staleSocketSession_def initialState_def handler_defs)

lemma staleSocketSession_reachable: "reachable staleSocketSession"
  unfolding staleSocketSession_def by (rule reachable_run) (rule reachable_init)

lemma manualTwice_stats:
  "totalLocationsSent (sessionStats manualTwice) = 2"
  "totalDistance (sessionStats manualTwice) = 0"
  "map latitude (sentLocations manualTwice) = [10.001, 10]"
  "map type' (sentLocations manualTwice) = [manual, manual]"
  by (simp_all add: manualTwice_def connectedSession_eq handler_defs)

lemma refreshThenWatch_stats:
  "map latitude (sentLocations refreshThenWatch) = [10.001, 10.001]"
  "map longitude (sentLocations refreshThenWatch) = [-75, -75]"
  "totalDistance (sessionStats refreshThenWatch) = calculateDistance 10 (-75) 10.001 (-75)"
  by (simp_all add: refreshThenWatch_def connectedSession_eq handler_defs)

lemma randomSession_types: "type' (hd (sentLocations randomSession)) = random"
  by (simp add: randomSession_def connectedSession_eq handler_defs)

lemma sameClockSession_ids:
  "map id' (sentLocations sameClockSession) =
     [toString 1700000005000, toString 1700000005000, toString 1700000000000]"
  by (simp add: sameClockSession_def connectedSession_eq handler_defs)

section \<open>Properties\<close>

text \<open>
  C4. After any sequence of \<open>N\<close> successful submissions the counter \<open>totalLocationsSent\<close>
  has grown by exactly \<open>N\<close> (so it is \<open>N\<close> when it started at zero), however long the
  sequence is: the truncation of the history to 100 entries never touches the counter.
  The same holds along any run of the session without a clear, whatever else happens
  between the submissions: the counter grows by the number of messages emitted on the
  transport, one per successful submission.
\<close>

theorem sendAll_totalLocationsSent:
  "(socketConnected s \<longrightarrow>
      totalLocationsSent (sessionStats (sendAll xs s)) =
        totalLocationsSent (sessionStats s) + length xs) \<and>
   (ClearHistory \<notin> set es \<longrightarrow>
      totalLocationsSent (sessionStats (run es t)) =
        totalLocationsSent (sessionStats t) + length (filter isEmit (effectsOf es t)))"
  using sendAll_count [of s xs] run_counts [of es t] by (simp add: sent_def)

theorem sendAll_totalLocationsSent_witness:
  "socketConnected connectedSession \<and>
   ClearHistory \<notin> set
     [SendManual (Resolved (fixAt 10 (-75))) ''2024-01-01T00:00:02.000Z'' 1000,
      SendManual (Resolved (fixAt 10.001 (-75))) ''2024-01-01T00:00:07.000Z'' 2000] \<and>
   totalLocationsSent (sessionStats
     (sendAll [(sampleAt 0 10 (-75), manual, 1000), (sampleAt 1 10.001 (-75), auto, 2000)]
        connectedSession)) = 2 \<and>
   length (filter isEmit (effectsOf
     [SendManual (Resolved (fixAt 10 (-75))) ''2024-01-01T00:00:02.000Z'' 1000,
      SendManual (Resolved (fixAt 10.001 (-75))) ''2024-01-01T00:00:07.000Z'' 2000]
     connectedSession)) = 2"
proof -
  have z: "totalLocationsSent (sessionStats connectedSession) = 0"
    by (simp add: connectedSession_eq)
  have m: "totalLocationsSent (sessionStats
     (run [SendManual (Resolved (fixAt 10 (-75))) ''2024-01-01T00:00:02.000Z'' 1000,
           SendManual (Resolved (fixAt 10.001 (-75))) ''2024-01-01T00:00:07.000Z'' 2000]
        connectedSession)) = 2"
    using manualTwice_stats(1) by (simp only: manualTwice_def)
  have n: "ClearHistory \<notin> set
     [SendManual (Resolved (fixAt 10 (-75))) ''2024-01-01T00:00:02.000Z'' 1000,
      SendManual (Resolved (fixAt 10.001 (-75))) ''2024-01-01T00:00:07.000Z'' 2000]"
    by simp
  show ?thesis
    using connectedSession_connected n
      sendAll_totalLocationsSent [of connectedSession
        "[(sampleAt 0 10 (-75), manual, 1000), (sampleAt 1 10.001 (-75), auto, 2000)]"
        "[SendManual (Resolved (fixAt 10 (-75))) ''2024-01-01T00:00:02.000Z'' 1000,
          SendManual (Resolved (fixAt 10.001 (-75))) ''2024-01-01T00:00:07.000Z'' 2000]"
        connectedSession]
    unfolding m z by simp
qed

text \<open>
  C5. Starting from an empty history, after \<open>N\<close> successful submissions the history is
  the list of the submitted records, newest first, cut to its first 100 entries: each
  entry has the six fields of its sample, the decimal clock reading of its submission as
  identifier, and the kind it was submitted with. The length of the history is
  \<open>min N 100\<close>, its first element is the record of the sample submitted last, and the
  records dropped are the oldest ones. In every reachable state of the session the
  history has at most 100 entries.
\<close>

theorem sendAll_history_newest_first:
  "(socketConnected s \<and> sentLocations s = [] \<longrightarrow>
      sentLocations (sendAll xs s) =
        take 100 (rev (map (\<lambda>(l, ty, now).
          \<lparr> latitude = latitude (snd l), longitude = longitude (snd l),
            accuracy = accuracy (snd l), timestamp = timestamp (snd l),
            speed = speed (snd l), heading = heading (snd l),
            id' = toString now, type' = ty \<rparr>) xs)) \<and>
      length (sentLocations (sendAll xs s)) = min (length xs) 100 \<and>
      (xs \<noteq> [] \<longrightarrow>
         hd (sentLocations (sendAll xs s)) =
           (case last xs of (l, ty, now) \<Rightarrow>
              \<lparr> latitude = latitude (snd l), longitude = longitude (snd l),
                accuracy = accuracy (snd l), timestamp = timestamp (snd l),
                speed = speed (snd l), heading = heading (snd l),
                id' = toString now, type' = ty \<rparr>))) \<and>
   (reachable t \<longrightarrow> length (sentLocations t) \<le> 100)"
proof -
  have f: "sentOf = (\<lambda>(l, ty, now).
          \<lparr> latitude = latitude (snd l), longitude = longitude (snd l),
            accuracy = accuracy (snd l), timestamp = timestamp (snd l),
            speed = speed (snd l), heading = heading (snd l),
            id' = toString now, type' = ty \<rparr>)"
    by (auto simp: sentOf_def mkSentLocation_def fun_eq_iff)
  have g: "sentOf (last xs) = (case last xs of (l, ty, now) \<Rightarrow>
              \<lparr> latitude = latitude (snd l), longitude = longitude (snd l),
                accuracy = accuracy (snd l), timestamp = timestamp (snd l),
                speed = speed (snd l), heading = heading (snd l),
                id' = toString now, type' = ty \<rparr>)"
    by (simp add: sentOf_def mkSentLocation_def)
  have "(socketConnected s \<and> sentLocations s = [] \<longrightarrow>
      sentLocations (sendAll xs s) = take 100 (rev (map sentOf xs)) \<and>
      length (sentLocations (sendAll xs s)) = min (length xs) 100 \<and>
      (xs \<noteq> [] \<longrightarrow> hd (sentLocations (sendAll xs s)) = sentOf (last xs))) \<and>
   (reachable t \<longrightarrow> length (sentLocations t) \<le> 100)"
  proof (intro conjI impI)
    assume a: "socketConnected s \<and> sentLocations s = []"
    then show e: "sentLocations (sendAll xs s) = take 100 (rev (map sentOf xs))"
      using sendAll_history [of s xs] by simp
    show "length (sentLocations (sendAll xs s)) = min (length xs) 100"
      by (simp add: e)
    assume "xs \<noteq> []"
    then show "hd (sentLocations (sendAll xs s)) = sentOf (last xs)"
      by (simp add: e hd_rev last_map)
  next
    assume "reachable t"
    then show "length (sentLocations t) \<le> 100" by (rule reachable_history_le)
  qed
  then show ?thesis unfolding g unfolding f .
qed

theorem sendAll_history_newest_first_witness:
  "socketConnected connectedSession \<and> sentLocations connectedSession = [] \<and>
   reachable connectedSession \<and>
   sentLocations
     (sendAll
        [((0, \<lparr> latitude = 10, longitude = -75, accuracy = Some 5,
                timestamp = ''2024-01-01T00:00:02.000Z'', speed = None,
                heading = None \<rparr>), manual, 1000),
         ((1, \<lparr> latitude = 10.001, longitude = -75, accuracy = Some 8,
                timestamp = ''2024-01-01T00:00:07.000Z'', speed = Some 3,
                heading = None \<rparr>), auto, 2000)]
        connectedSession)
     = [\<lparr> latitude = 10.001, longitude = -75, accuracy = Some 8,
          timestamp = ''2024-01-01T00:00:07.000Z'', speed = Some 3, heading = None,
          id' = ''2000'', type' = auto \<rparr>,
        \<lparr> latitude = 10, longitude = -75, accuracy = Some 5,
          timestamp = ''2024-01-01T00:00:02.000Z'', speed = None, heading = None,
          id' = ''1000'', type' = manual \<rparr>] \<and>
   length (sentLocations connectedSession) \<le> 100"
proof -
  have e: "sentLocations connectedSession = []" by (simp add: connectedSession_eq)
  show ?thesis
    using connectedSession_connected connectedSession_reachable e
      sendAll_history_newest_first [of connectedSession
        "[((0, \<lparr> latitude = 10, longitude = -75, accuracy = Some 5,
                timestamp = ''2024-01-01T00:00:02.000Z'', speed = None,
                heading = None \<rparr>), manual, 1000),
         ((1, \<lparr> latitude = 10.001, longitude = -75, accuracy = Some 8,
                timestamp = ''2024-01-01T00:00:07.000Z'', speed = Some 3,
                heading = None \<rparr>), auto, 2000)]"
        connectedSession]
    by (simp add: toString_examples)
qed



text \<open>
  C9. \<^verbatim>\<open>stopTracking\<close> is idempotent: a second call right after the first changes nothing
  and has nothing left to cancel. The first call removes the position subscription and
  clears the tracking timer that the session holds, leaves both references empty and the
  tracking flag off, and leaves the history and the session statistics as they were.
\<close>

theorem stopTracking_idempotent:
  "snd (stopTracking (snd (stopTracking s))) = snd (stopTracking s) \<and>
   fst (stopTracking (snd (stopTracking s))) = [] \<and>
   locationSubscription (snd (stopTracking s)) = None \<and>
   trackingIntervalRef (snd (stopTracking s)) = None \<and>
   isTracking (snd (stopTracking s)) = False \<and>
   fst (stopTracking (s\<lparr> locationSubscription := Some h, trackingIntervalRef := Some k \<rparr>))
     = [SubscriptionRemove h, ClearInterval k] \<and>
   sentLocations (snd (stopTracking s)) = sentLocations s \<and>
   sessionStats (snd (stopTracking s)) = sessionStats s"
  by (simp add: stopTracking_def)

text \<open>
  C7. Submitting while the transport is not connected reports the error
  "no connection to the server" and does nothing else: the whole session record (history,
  counters, cumulative distance, average accuracy and every other field) is returned
  unchanged, and the only effect is the alert, so nothing is emitted on the transport.
\<close>

theorem sendLocation_not_connected:
  "\<not> socketConnected s \<Longrightarrow> sendLocation locationData ty now s = ([Alert NoHayConexion], s)"
  by (simp add: sendLocation_def)

theorem sendLocation_not_connected_witness:
  "\<not> socketConnected (initialState ''t0'' None) \<and>
   sendLocation (0, \<lparr> latitude = 10, longitude = -75, accuracy = Some 5,
                      timestamp = ''t1'', speed = None, heading = None \<rparr>) manual 1
     (initialState ''t0'' None)
   = ([Alert NoHayConexion], initialState ''t0'' None)"
proof -
  have h: "\<not> socketConnected (initialState ''t0'' None)"
    by (simp add: socketConnected_def initialState_def)
  show ?thesis using h sendLocation_not_connected [OF h] by simp
qed

text \<open>
  C10. A submission leaves the last-location reference, the baseline of the next distance
  delta, as it was. So does the callback of the position subscription, whose sample
  therefore never becomes the baseline. Among all events of the session only those whose
  handler fetches a position with \<^verbatim>\<open>getCurrentLocation\<close> or is the test-location action
  can change the reference.
\<close>

theorem lastLocationRef_written_only_by_fetch_or_test:
  "lastLocationRef (snd (sendLocation l ty now s)) = lastLocationRef s \<and>
   lastLocationRef (snd (watchCallback c isoNow now' s)) = lastLocationRef s \<and>
   (\<not> writesLastLocation e \<longrightarrow> lastLocationRef (snd (step e s)) = lastLocationRef s)"
  by (simp add: step_keeps_lastLocationRef)

theorem lastLocationRef_written_only_by_fetch_or_test_witness:
  "\<not> writesLastLocation (WatchFired (fixAt 10 (-75)) ''2024-01-01T00:00:02.000Z'' 1000) \<and>
   lastLocationRef
     (snd (step (WatchFired (fixAt 10 (-75)) ''2024-01-01T00:00:02.000Z'' 1000)
        connectedSession)) = None"
proof -
  have n: "lastLocationRef connectedSession = None" by (simp add: connectedSession_eq)
  show ?thesis
    using lastLocationRef_written_only_by_fetch_or_test
      [of "sampleAt 0 10 (-75)" auto 1000 connectedSession "fixAt 10 (-75)"
          "''2024-01-01T00:00:02.000Z''" 1000
          "WatchFired (fixAt 10 (-75)) ''2024-01-01T00:00:02.000Z'' 1000"]
    by (simp add: n)
qed

text \<open>
  C3, as the code has it. The record that a successful submission puts in front of the
  history carries the kind that was passed to the submission. Whenever the handler of an
  event submits a sample, that kind is the one the handler is written with: \<open>auto\<close> for
  the start of tracking, the subscription and the tracking timer, \<open>manual\<close> for the manual
  submission, \<open>test\<close> for the test location and \<open>random\<close> for the random-data callbacks.
  So the kinds of the records are drawn from the closed set of these four.
\<close>

theorem sentLocation_kind_is_handler_kind:
  "(socketConnected s \<longrightarrow>
      sentLocations (snd (sendLocation l ty now s)) \<noteq> [] \<and>
      type' (hd (sentLocations (snd (sendLocation l ty now s)))) = ty) \<and>
   (filter isEmit (fst (step e t)) \<noteq> [] \<longrightarrow>
      kindOf e = Some (type' (hd (sentLocations (snd (step e t))))))"
  using step_kind [of e t] by (simp add: sendLocation_connected mkSentLocation_def)

theorem sentLocation_kind_is_handler_kind_witness:
  "socketConnected connectedSession \<and>
   filter isEmit (fst (step
     (RandomFired 10.42 (-75.54) 12 30 ''2024-01-01T00:00:02.000Z'' 1000)
     connectedSession)) \<noteq> [] \<and>
   type' (hd (sentLocations (snd (sendLocation (sampleAt 0 10 (-75)) test 1000
      connectedSession)))) = test \<and>
   type' (hd (sentLocations (snd (step
     (RandomFired 10.42 (-75.54) 12 30 ''2024-01-01T00:00:02.000Z'' 1000)
     connectedSession)))) = random"
proof -
  have e: "filter isEmit (fst (step
     (RandomFired 10.42 (-75.54) 12 30 ''2024-01-01T00:00:02.000Z'' 1000)
     connectedSession)) \<noteq> []"
    by (simp add: connectedSession_eq handler_defs mkPayload_def vehicleIdOf_def)
  show ?thesis
    using connectedSession_connected e
      sentLocation_kind_is_handler_kind [of connectedSession "sampleAt 0 10 (-75)" test 1000
        "RandomFired 10.42 (-75.54) 12 30 ''2024-01-01T00:00:02.000Z'' 1000"
        connectedSession]
    by simp
qed

text \<open>
  C3, as stated, fails: a point of a random route is recorded with the kind \<open>random\<close>,
  which is none of \<open>manual\<close>, \<open>auto\<close>, \<open>test\<close>; and two submissions handled within the same
  millisecond get the same identifier.
\<close>

theorem sentLocation_random_kind_and_repeated_id:
  "type' (hd (sentLocations randomSession)) \<notin> {manual, auto, test} \<and>
   \<not> distinct (map id' (sentLocations sameClockSession))"
  by (simp add: randomSession_types sameClockSession_ids)

text \<open>
  C8, as the code has it. When \<^verbatim>\<open>connectToServer\<close> is called while the session is neither
  connecting nor connected and the store holds no token (none, or the empty string), the
  call reports the missing token and opens no transport: no socket instance is created
  and the socket reference is untouched. The session is marked connecting while the token
  is read; when the call ends it is neither connecting nor connected, the status line
  shows the authentication error, and every other field is as before.
\<close>

theorem connectToServer_without_token:
  "\<not> isConnecting s \<Longrightarrow> \<not> isConnected s \<Longrightarrow>
   tok = Resolved None \<or> tok = Resolved (Some []) \<Longrightarrow>
   connectToServer tok s =
     ([Alert TokenNoEncontrado],
      s\<lparr> isConnecting := False, connectionStatus := ErrorDeAutenticacion \<rparr>) \<and>
   connectToServer tok s = connectResume tok (connectBegin s) \<and>
   connectBegin s = s\<lparr> isConnecting := True, connectionStatus := Conectando \<rparr> \<and>
   sockets (snd (connectToServer tok s)) = sockets s \<and>
   socketRef (snd (connectToServer tok s)) = socketRef s \<and>
   isConnecting (snd (connectToServer tok s)) = False \<and>
   isConnected (snd (connectToServer tok s)) = False"
  by (auto simp: connectToServer_def connectResume_def connectBegin_def)

theorem connectToServer_without_token_witness:
  "\<not> isConnecting (initialState ''2024-01-01T00:00:00.000Z'' None) \<and>
   \<not> isConnected (initialState ''2024-01-01T00:00:00.000Z'' None) \<and>
   ((Resolved None :: string option awaited) = Resolved None \<or>
    (Resolved None :: string option awaited) = Resolved (Some [])) \<and>
   fst (connectToServer (Resolved None) (initialState ''2024-01-01T00:00:00.000Z'' None))
     = [Alert TokenNoEncontrado] \<and>
   sockets (snd (connectToServer (Resolved None)
     (initialState ''2024-01-01T00:00:00.000Z'' None))) = []"
proof -
  have a: "\<not> isConnecting (initialState ''2024-01-01T00:00:00.000Z'' None)"
    and b: "\<not> isConnected (initialState ''2024-01-01T00:00:00.000Z'' None)"
    and c: "sockets (initialState ''2024-01-01T00:00:00.000Z'' None) = []"
    by (simp_all add: initialState_def)
  have d: "(Resolved None :: string option awaited) = Resolved None \<or>
    (Resolved None :: string option awaited) = Resolved (Some [])" by simp
  show ?thesis
    using a b connectToServer_without_token [OF a b d] by (simp add: c)
qed

text \<open>
  C8, as stated, fails: on a fresh session with no stored token the call passes its guard
  and, before the token is read, marks the session as connecting; and when the call ends
  the status line is not what it was.
\<close>

theorem connect_with_no_token_marks_connecting:
  "isConnecting (initialState ''2024-01-01T00:00:00.000Z'' None) = False \<and>
   isConnected (initialState ''2024-01-01T00:00:00.000Z'' None) = False \<and>
   connectToServer (Resolved None) (initialState ''2024-01-01T00:00:00.000Z'' None) =
     connectResume (Resolved None)
       (connectBegin (initialState ''2024-01-01T00:00:00.000Z'' None)) \<and>
   isConnecting (connectBegin (initialState ''2024-01-01T00:00:00.000Z'' None)) = True \<and>
   connectionStatus (connectBegin (initialState ''2024-01-01T00:00:00.000Z'' None))
     = Conectando \<and>
   connectionStatus (snd (connectToServer (Resolved None)
     (initialState ''2024-01-01T00:00:00.000Z'' None)))
     \<noteq> connectionStatus (initialState ''2024-01-01T00:00:00.000Z'' None)"
  by (simp add: initialState_def connectToServer_def connectResume_def connectBegin_def)

text \<open>
  C2 does not hold of the code. The handler of \<^verbatim>\<open>connect_error\<close> marks the session as not
  connected but, unlike the handler of \<^verbatim>\<open>disconnect\<close>, does not stop tracking. In the
  reachable session below, a first socket that never connected reports another failed
  attempt while tracking runs on a second socket: afterwards the session is not connected,
  yet the tracking flag is on and the subscription and the timer are still held.
\<close>

theorem connect_error_leaves_tracking_on:
  "reachable staleSocketSession \<and>
   isConnected staleSocketSession = False \<and>
   isTracking staleSocketSession = True \<and>
   locationSubscription staleSocketSession = Some 1 \<and>
   trackingIntervalRef staleSocketSession = Some 2"
  by (simp add: staleSocketSession_reachable staleSocketSession_flags)

text \<open>
  C1 does not hold of the code. The baseline of the distance delta is the last location
  that was fetched (or the last test location), whether or not it was submitted, and a
  sample that is that very object adds nothing. Two manual submissions 0.001 degrees of
  latitude apart leave the cumulative distance at zero, although the distance between
  them is positive; and a fix that was fetched by a refresh and never submitted becomes
  the baseline of the next subscription sample, so that two submissions at the same
  coordinates add the distance to that fix.
\<close>

theorem totalDistance_measured_from_last_fetched_location:
  "totalLocationsSent (sessionStats manualTwice) = 2 \<and>
   map latitude (sentLocations manualTwice) = [10.001, 10] \<and>
   totalDistance (sessionStats manualTwice) = 0 \<and>
   0 < calculateDistance 10 (-75) 10.001 (-75) \<and>
   map latitude (sentLocations refreshThenWatch) = [10.001, 10.001] \<and>
   map longitude (sentLocations refreshThenWatch) = [-75, -75] \<and>
   calculateDistance 10.001 (-75) 10.001 (-75) = 0 \<and>
   totalDistance (sessionStats refreshThenWatch) = calculateDistance 10 (-75) 10.001 (-75)"
  using calculateDistance_example_pos
  by (simp add: manualTwice_stats refreshThenWatch_stats calculateDistance_same)

end
